theory Spec2Isabelle
  imports Complex_Main "HOL-Library.Multiset"
begin

section \<open>Python values and errors\<close>

text \<open>
  The source is one Python 3 module, \<^verbatim>\<open>semi_yolov5_STAC.py\<close>: the class
  \<^verbatim>\<open>semiDataset\<close> and the procedure \<^verbatim>\<open>train\<close>. Each fragment of \<^verbatim>\<open>train\<close>
  is embedded as a function of the values it reads, started in a state in which the
  statements before it have completed. Floating-point numbers are idealised as reals.

  The fragments are studied one by one because \<^verbatim>\<open>train\<close> as a whole does not get
  past its first statement: the assignment \<^verbatim>\<open>Path = []\<close> of the pseudo-labeling pass
  makes \<^verbatim>\<open>Path\<close> a local name of the whole procedure, so that \<^verbatim>\<open>Path(opt.save_dir)\<close>
  in the first statement raises \<^verbatim>\<open>UnboundLocalError\<close>.

  The assertions of \<^verbatim>\<open>train\<close> build their message with the \<^verbatim>\<open>%\<close> operator from a
  fixed format string and a tuple of arguments. A diagnostic is kept as that tuple, one
  constructor per format string:
  \<^verbatim>\<open>'%g names found for nc=%g dataset in %s' % (len(names), nc, opt.data)\<close> and
  \<^verbatim>\<open>'Label class %g exceeds nc=%g in %s. Possible class labels are 0-%g' % (mlc, nc, opt.data, nc-1)\<close>.
\<close>

datatype diagnostic =
    NamesFound nat int string
  | LabelClassExceeds real int string int

datatype error =
    TypeError
  | AttributeError
  | IndexError
  | ValueError
  | ZeroDivisionError
  | NameError string
  | AssertionError diagnostic

text \<open>Numbers as Python has them: an \<^verbatim>\<open>int\<close> or a \<^verbatim>\<open>float\<close>; and a list of numbers.\<close>

datatype pynum = PyInt int | PyFloat real

datatype pyval = Num pynum | NumList "pynum list"

fun num_value :: "pynum \<Rightarrow> real" where
  "num_value (PyInt i) = real_of_int i"
| "num_value (PyFloat x) = x"

text \<open>
  \<^verbatim>\<open>a / b\<close> on two ints is true division in Python 3: the result is a float, also
  when \<open>b\<close> divides \<open>a\<close>.
\<close>

definition py_truediv :: "int \<Rightarrow> int \<Rightarrow> error + pynum" where
  "py_truediv a b =
     (if b = 0 then Inl ZeroDivisionError else Inr (PyFloat (real_of_int a / real_of_int b)))"

text \<open>
  \<^verbatim>\<open>range(a, b)\<close> takes ints only: a float argument raises
  \<^verbatim>\<open>TypeError: 'float' object cannot be interpreted as an integer\<close>.
\<close>

fun py_range :: "pynum \<Rightarrow> pynum \<Rightarrow> error + int list" where
  "py_range (PyInt a) (PyInt b) = Inr [a..b - 1]"
| "py_range _ _ = Inl TypeError"

text \<open>
  \<^verbatim>\<open>a <= b\<close>: numbers compare by value, lists compare lexicographically, and a number
  against a list has no ordering (\<^verbatim>\<open>TypeError: '<=' not supported between instances
  of 'int' and 'list'\<close>).
\<close>

fun list_le :: "pynum list \<Rightarrow> pynum list \<Rightarrow> bool" where
  "list_le [] _ = True"
| "list_le (x # xs) [] = False"
| "list_le (x # xs) (y # ys) =
     (if num_value x = num_value y then list_le xs ys else num_value x \<le> num_value y)"

fun py_le :: "pyval \<Rightarrow> pyval \<Rightarrow> error + bool" where
  "py_le (Num a) (Num b) = Inr (num_value a \<le> num_value b)"
| "py_le (NumList xs) (NumList ys) = Inr (list_le xs ys)"
| "py_le _ _ = Inl TypeError"

text \<open>
  Subscripting a list with an integer counts a negative index from the end and raises
  \<^verbatim>\<open>IndexError\<close> outside of \<open>-n .. n-1\<close>.
\<close>

definition list_getitem :: "'a list \<Rightarrow> int \<Rightarrow> error + 'a" where
  "list_getitem xs i =
     (if 0 \<le> i \<and> i < int (length xs) then Inr (xs ! nat i)
      else if i < 0 \<and> - int (length xs) \<le> i then Inr (xs ! nat (int (length xs) + i))
      else Inl IndexError)"

section \<open>The pseudo-label dataset container\<close>

text \<open>
  \<^verbatim>\<open>
  class semiDataset(Dataset):
      def __init__(self, imgs, target, path):
          self.imgs = imgs
          self.target = target
          self.path = path
          self.size = None
      def __len__(self):
          return len(self.imgs)
      def __getitem__(self, index):
          return self.imgs[index], self.target[index], self.path[index], self.size
  \<close>
  The three sequences are Python lists; the elements of the returned tuple are
  evaluated from left to right.
\<close>

record ('i, 't, 'p, 's) semiDataset =
  sd_imgs :: "'i list"
  sd_target :: "'t list"
  sd_path :: "'p list"
  sd_size :: "'s option"

definition semiDataset_init ::
  "'i list \<Rightarrow> 't list \<Rightarrow> 'p list \<Rightarrow> ('i, 't, 'p, 's) semiDataset" where
  "semiDataset_init imgs target path =
     \<lparr>sd_imgs = imgs, sd_target = target, sd_path = path, sd_size = None\<rparr>"

definition semiDataset_len :: "('i, 't, 'p, 's) semiDataset \<Rightarrow> nat" where
  "semiDataset_len self = length (sd_imgs self)"

definition semiDataset_getitem ::
  "('i, 't, 'p, 's) semiDataset \<Rightarrow> int \<Rightarrow> error + ('i \<times> 't \<times> 'p \<times> 's option)" where
  "semiDataset_getitem self index =
     (case list_getitem (sd_imgs self) index of
        Inl e \<Rightarrow> Inl e
      | Inr im \<Rightarrow>
          (case list_getitem (sd_target self) index of
             Inl e \<Rightarrow> Inl e
           | Inr t \<Rightarrow>
               (case list_getitem (sd_path self) index of
                  Inl e \<Rightarrow> Inl e
                | Inr p \<Rightarrow> Inr (im, t, p, sd_size self))))"

section \<open>Setup: class count and names\<close>

text \<open>
  \<^verbatim>\<open>
  nc = 1 if opt.single_cls else int(data_dict['nc'])
  names = ['item'] if opt.single_cls and len(data_dict['names']) != 1 else data_dict['names']
  assert len(names) == nc, '%g names found for nc=%g dataset in %s' % (len(names), nc, opt.data)
  \<close>
  The dataset descriptor carries an integer \<^verbatim>\<open>nc\<close> and a list of names.
\<close>

record data_dict =
  dd_nc :: int
  dd_names :: "string list"

definition resolve_nc :: "bool \<Rightarrow> data_dict \<Rightarrow> int" where
  "resolve_nc single_cls d = (if single_cls then 1 else dd_nc d)"

definition resolve_names :: "bool \<Rightarrow> data_dict \<Rightarrow> string list" where
  "resolve_names single_cls d =
     (if single_cls \<and> length (dd_names d) \<noteq> 1 then [''item''] else dd_names d)"

definition configure :: "bool \<Rightarrow> string \<Rightarrow> data_dict \<Rightarrow> error + (int \<times> string list)" where
  "configure single_cls data d =
     (let nc = resolve_nc single_cls d;
          names = resolve_names single_cls d
      in if int (length names) = nc then Inr (nc, names)
         else Inl (AssertionError (NamesFound (length names) nc data)))"

section \<open>Dataset-level validation of the label classes\<close>

text \<open>
  \<^verbatim>\<open>
  mlc = np.concatenate(dataset.labels, 0)[:, 0].max()      # max label class
  assert mlc < nc, 'Label class %g exceeds nc=%g in %s. Possible class labels are 0-%g' % (mlc, nc, opt.data, nc-1)
  \<close>
  \<^verbatim>\<open>dataset.labels\<close> holds one array per image, a row \<open>(class, x, y, w, h)\<close> per
  object. \<^verbatim>\<open>np.concatenate\<close> of no arrays and \<^verbatim>\<open>max\<close> of an array with no rows
  raise \<^verbatim>\<open>ValueError\<close>.
\<close>

type_synonym label_row = "real \<times> real \<times> real \<times> real \<times> real"

definition max_label_class :: "label_row list list \<Rightarrow> error + real" where
  "max_label_class labels =
     (if labels = [] then Inl ValueError
      else case map fst (concat labels) of
             [] \<Rightarrow> Inl ValueError
           | c # cs \<Rightarrow> Inr (fold max cs c))"

definition check_label_classes :: "label_row list list \<Rightarrow> int \<Rightarrow> string \<Rightarrow> error + real" where
  "check_label_classes labels nc data =
     (case max_label_class labels of
        Inl e \<Rightarrow> Inl e
      | Inr mlc \<Rightarrow>
          if mlc < real_of_int nc then Inr mlc
          else Inl (AssertionError (LabelClassExceeds mlc nc data (nc - 1))))"

section \<open>Resume\<close>

text \<open>
  \<^verbatim>\<open>
  start_epoch, best_fitness = 0, 0.0
  if pretrained:
      if ckpt['optimizer'] is not None:
          optimizer.load_state_dict(ckpt['optimizer'])
          best_fitness = ckpt['best_fitness']
      ...
      start_epoch = ckpt['epoch'] + 1
      if opt.resume:
          assert start_epoch > 0, '%s training to %g epochs is finished, nothing to resume.' % (weight, epochs)
      if epochs < start_epoch:
          epochs += ckpt['epoch']
  \<close>
  The message of the assertion names \<^verbatim>\<open>weight\<close>. The module binds \<^verbatim>\<open>weights\<close> only,
  so evaluating the message, which Python does when the condition is false, raises
  \<^verbatim>\<open>NameError: name 'weight' is not defined\<close>. The checkpoint is \<^verbatim>\<open>None\<close> when the
  weights are not pretrained.
\<close>

record checkpoint =
  ck_epoch :: int
  ck_has_optimizer :: bool
  ck_best_fitness :: real

record resumed =
  start_epoch :: int
  best_fitness :: real
  epochs :: int

definition resume :: "checkpoint option \<Rightarrow> bool \<Rightarrow> int \<Rightarrow> error + resumed" where
  "resume pretrained opt_resume epochs0 =
     (case pretrained of
        None \<Rightarrow> Inr \<lparr>start_epoch = 0, best_fitness = 0, epochs = epochs0\<rparr>
      | Some ckpt \<Rightarrow>
          (let bf = (if ck_has_optimizer ckpt then ck_best_fitness ckpt else 0);
               se = ck_epoch ckpt + 1
           in if opt_resume \<and> \<not> se > 0 then Inl (NameError ''weight'')
              else Inr \<lparr>start_epoch = se, best_fitness = bf,
                        epochs = (if epochs0 < se then epochs0 + ck_epoch ckpt else epochs0)\<rparr>))"

section \<open>The burn-in loop and its warm-up\<close>

text \<open>
  \<^verbatim>\<open>
  burnin_epochs = epochs / 2
  for epoch in range(start_epoch, burnin_epochs):
  \<close>
  The epochs the loop visits, in order, or the error of evaluating its header.
\<close>

definition burnin_epoch_indices :: "int \<Rightarrow> int \<Rightarrow> error + int list" where
  "burnin_epoch_indices start epochs0 =
     (case py_truediv epochs0 2 of
        Inl e \<Rightarrow> Inl e
      | Inr burnin_epochs \<Rightarrow> py_range (PyInt start) burnin_epochs)"

text \<open>
  \<^verbatim>\<open>
  if ni <= [0, nw]:
      xi = [0, nw]
      accumulate = max(1, np.interp(ni, xi, [1, nbs / total_batch_size].round()))
      for j, x in enumerate(optimizer.param_groups):
          x['lr'] = np.interp(ni, xi, [hyp['warmup_bias_lr'] if j == 2 else 0.0, x['initial_lr'] * lf(epoch)])
          if 'momentum' in x:
              x['momentum'] = np.interp(ni, xi, [hyp['warmup_momentum'], hyp['momentum']])
  \<close>
  \<^verbatim>\<open>np.interp\<close> on two sample points is linear between them and constant outside. A
  Python list has no attribute \<^verbatim>\<open>round\<close>.
\<close>

record hyp =
  warmup_bias_lr :: real
  warmup_momentum :: real
  momentum :: real

record param_group =
  lr :: real
  initial_lr :: real
  pg_momentum :: "real option"

definition np_interp :: "real \<Rightarrow> real \<times> real \<Rightarrow> real \<times> real \<Rightarrow> real" where
  "np_interp x xp fp =
     (if x \<le> fst xp then fst fp
      else if snd xp \<le> x then snd fp
      else fst fp + (x - fst xp) * ((snd fp - fst fp) / (snd xp - fst xp)))"

definition list_round :: "pynum list \<Rightarrow> error + pynum list" where
  "list_round xs = Inl AttributeError"

definition warmup_group :: "hyp \<Rightarrow> real \<Rightarrow> int \<Rightarrow> int \<Rightarrow> nat \<times> param_group \<Rightarrow> param_group" where
  "warmup_group h lf_epoch ni nw jx =
     (let j = fst jx; x = snd jx;
          xi = (0, real_of_int nw);
          x1 = x\<lparr>lr := np_interp (real_of_int ni) xi
                        (if j = 2 then warmup_bias_lr h else 0, initial_lr x * lf_epoch)\<rparr>
      in case pg_momentum x1 of
           None \<Rightarrow> x1
         | Some _ \<Rightarrow>
             x1\<lparr>pg_momentum :=
                   Some (np_interp (real_of_int ni) xi (warmup_momentum h, momentum h))\<rparr>)"

definition warmup ::
  "hyp \<Rightarrow> real \<Rightarrow> int \<Rightarrow> int \<Rightarrow> int \<Rightarrow> int \<Rightarrow> real \<times> param_group list
     \<Rightarrow> error + (real \<times> param_group list)" where
  "warmup h lf_epoch nbs total_batch_size ni nw st =
     (case py_le (Num (PyInt ni)) (NumList [PyInt 0, PyInt nw]) of
        Inl e \<Rightarrow> Inl e
      | Inr c \<Rightarrow>
          if \<not> c then Inr st
          else
            (case py_truediv nbs total_batch_size of
               Inl e \<Rightarrow> Inl e
             | Inr q \<Rightarrow>
                 (case list_round [PyInt 1, q] of
                    Inl e \<Rightarrow> Inl e
                  | Inr fp \<Rightarrow>
                      Inr (max 1 (np_interp (real_of_int ni) (0, real_of_int nw)
                                    (num_value (fp ! 0), num_value (fp ! 1))),
                           map (warmup_group h lf_epoch ni nw)
                             (zip [0..<length (snd st)] (snd st))))))"

section \<open>Optimizer parameter groups\<close>

text \<open>
  \<^verbatim>\<open>
  pg0, pg1, pg2 = [], [], []  # optimizer parameter groups
  for k, v in model.named_modules():
      if hasattr(v, 'bias') and isinstance(v.bias, nn.Parameter):
          pg2.append(v.bias)    # biases
      if isinstance(v, nn.BatchNorm2d):
          pg0.append(v.weight)   # no decay
      elif hasattr(v, 'weight') and isinstance(v.weight, nn.Parameter):
          pg1.append(v.weight)  # apply dacay
  \<close>
  The loop looks at three things of a module: whether it is a \<^verbatim>\<open>BatchNorm2d\<close>, its
  attribute \<^verbatim>\<open>weight\<close> and its attribute \<^verbatim>\<open>bias\<close>. An attribute is absent, or it
  holds \<^verbatim>\<open>None\<close>, a plain tensor or a parameter; tensors and parameters are objects,
  told apart by their identity, a number. A module can register parameters under
  other attribute names as well; \<^verbatim>\<open>model.parameters()\<close> yields those too, each
  parameter object once.
\<close>

datatype attr_value = NoneV | TensorV nat | ParameterV nat

record module =
  isBatchNorm2d :: bool
  m_weight :: "attr_value option"
  m_bias :: "attr_value option"
  m_other :: "nat list"

type_synonym groups = "attr_value list \<times> attr_value list \<times> attr_value list"

fun as_parameter :: "attr_value option \<Rightarrow> nat list" where
  "as_parameter (Some (ParameterV p)) = [p]"
| "as_parameter _ = []"

fun param_groups_loop :: "module list \<Rightarrow> groups \<Rightarrow> error + groups" where
  "param_groups_loop [] g = Inr g"
| "param_groups_loop (v # vs) (pg0, pg1, pg2) =
     (let pg2' = pg2 @ map ParameterV (as_parameter (m_bias v))
      in if isBatchNorm2d v then
           (case m_weight v of
              None \<Rightarrow> Inl AttributeError
            | Some w \<Rightarrow> param_groups_loop vs (pg0 @ [w], pg1, pg2'))
         else param_groups_loop vs
                (pg0, pg1 @ map ParameterV (as_parameter (m_weight v)), pg2'))"

definition param_groups :: "module list \<Rightarrow> error + groups" where
  "param_groups model = param_groups_loop model ([], [], [])"

definition module_parameters :: "module \<Rightarrow> nat list" where
  "module_parameters v = as_parameter (m_weight v) @ as_parameter (m_bias v) @ m_other v"

definition parameters :: "module list \<Rightarrow> nat list" where
  "parameters model = remdups (concat (map module_parameters model))"

text \<open>
  The parameters a module holds as \<^verbatim>\<open>weight\<close> or \<^verbatim>\<open>bias\<close>, by the role the loop
  gives them.
\<close>

definition norm_weights :: "module list \<Rightarrow> attr_value list" where
  "norm_weights model = concat (map (\<lambda>v. case m_weight v of None \<Rightarrow> [] | Some w \<Rightarrow> [w])
                                  (filter isBatchNorm2d model))"

definition other_weights :: "module list \<Rightarrow> attr_value list" where
  "other_weights model =
     map ParameterV (concat (map (\<lambda>v. as_parameter (m_weight v))
                               (filter (\<lambda>v. \<not> isBatchNorm2d v) model)))"

definition biases :: "module list \<Rightarrow> attr_value list" where
  "biases model = map ParameterV (concat (map (\<lambda>v. as_parameter (m_bias v)) model))"

text \<open>
  A model is plain when each \<^verbatim>\<open>BatchNorm2d\<close> holds a parameter as its weight (it is
  affine, the default) and no parameter object sits in two \<^verbatim>\<open>weight\<close> or \<^verbatim>\<open>bias\<close>
  slots (no weight tying).
\<close>

definition slot_parameters :: "module list \<Rightarrow> nat list" where
  "slot_parameters model =
     concat (map (\<lambda>v. as_parameter (m_weight v) @ as_parameter (m_bias v)) model)"

definition affine :: "module \<Rightarrow> bool" where
  "affine v = (case m_weight v of Some (ParameterV p) \<Rightarrow> True | _ \<Rightarrow> False)"

definition plain_model :: "module list \<Rightarrow> bool" where
  "plain_model model =
     (list_all affine (filter isBatchNorm2d model) \<and> distinct (slot_parameters model))"

section \<open>The pseudo-labeling pass\<close>

text \<open>
  \<^verbatim>\<open>
  img = []
  target = []
  Path = []
  for idx, batch in tqdm (enumerate(unlabeldataloader), total=len(unlabeldataloader)):
      imgs0, _, path, _ = batch
      with torch.no_grad():
          pred = model(imgs0.to(device, non_blocking=True).float() / 255.0)[0]
      gn = torch.tensor(imgs0.shape)[[3, 2, 3, 2]]
      pred = non_max_suppression(pred, opt.conf_thres, opt.iou_thres, classes=opt.classes, agnostic=opt.agnostic_nms)
      for index, pre in enumerate(pred):
          predict_number = len(pre)
          if predict_number==0:
              continue
          Class = pre[:,5].view(predict_number,1).cpu()
          XYWH = (xyxy2xywh(pre[:,:4])).cpu()
          XYWH/= gn
          pre = torch.cat((torch.zeros(predict_number,1),Class,XYWH), dim=1)
          img.append(imgs0[index])
          target.append(pre)
          Path.append(path[index])
  unlabeldataset = semiDataset(img, target, Path)
  \<close>
  \<^verbatim>\<open>imgs0\<close> is one tensor of shape \<open>(B, C, H, W)\<close>: the images of a batch share the
  channel count, height and width, and \<^verbatim>\<open>imgs0[index]\<close> is the image of shape
  \<open>(C, H, W)\<close> at \<open>index\<close>, or an \<^verbatim>\<open>IndexError\<close>.
\<close>

record 'px image =
  im_chan :: nat
  im_h :: nat
  im_w :: nat
  im_data :: 'px

record 'px tensor4 =
  t_chan :: nat
  t_h :: nat
  t_w :: nat
  t_data :: "'px list"

definition image_of :: "'px tensor4 \<Rightarrow> 'px \<Rightarrow> 'px image" where
  "image_of imgs0 x =
     \<lparr>im_chan = t_chan imgs0, im_h = t_h imgs0, im_w = t_w imgs0, im_data = x\<rparr>"

definition tensor_getitem :: "'px tensor4 \<Rightarrow> nat \<Rightarrow> error + 'px image" where
  "tensor_getitem imgs0 index =
     (if index < length (t_data imgs0) then Inr (image_of imgs0 (t_data imgs0 ! index))
      else Inl IndexError)"

text \<open>
  Modelled from the spec: \<^verbatim>\<open>non_max_suppression\<close> of \<^verbatim>\<open>utils.general\<close> is not part of
  the source. It returns, per image of the batch, the detections that survive: rows in
  corner-coordinate form with a confidence and a class-id column appended. The pass
  reads the columns 0 to 3 as the box and column 5 as the class.
\<close>

record det =
  d_x1 :: real
  d_y1 :: real
  d_x2 :: real
  d_y2 :: real
  d_conf :: real
  d_cls :: real

type_synonym box = "real \<times> real \<times> real \<times> real"

definition det_box :: "det \<Rightarrow> box" where
  "det_box d = (d_x1 d, d_y1 d, d_x2 d, d_y2 d)"

text \<open>
  Modelled from the spec: \<^verbatim>\<open>xyxy2xywh\<close> of \<^verbatim>\<open>utils.general\<close> is not part of the
  source. It converts boxes from corner form \<open>[x1, y1, x2, y2]\<close> to center-size form
  \<open>[center x, center y, width, height]\<close>, row by row.
\<close>

definition xyxy2xywh :: "box list \<Rightarrow> box list" where
  "xyxy2xywh x =
     map (\<lambda>(x1, y1, x2, y2). ((x1 + x2) / 2, (y1 + y2) / 2, x2 - x1, y2 - y1)) x"

definition gn_of :: "'px tensor4 \<Rightarrow> box" where
  "gn_of imgs0 = (real (t_w imgs0), real (t_h imgs0), real (t_w imgs0), real (t_h imgs0))"

definition div_rows :: "box list \<Rightarrow> box \<Rightarrow> box list" where
  "div_rows m gn =
     map (\<lambda>(a, b, c, d). (a / fst gn, b / fst (snd gn),
                           c / fst (snd (snd gn)), d / snd (snd (snd gn)))) m"

definition torch_cat :: "real list \<Rightarrow> real list \<Rightarrow> box list \<Rightarrow> real list list" where
  "torch_cat zs cs bs = map (\<lambda>(z, c, (x, y, w, h)). [z, c, x, y, w, h]) (zip zs (zip cs bs))"

definition label_records :: "box \<Rightarrow> det list \<Rightarrow> real list list" where
  "label_records gn pre =
     (let predict_number = length pre;
          Class = map d_cls pre;
          XYWH = div_rows (xyxy2xywh (map det_box pre)) gn
      in torch_cat (replicate predict_number 0) Class XYWH)"

type_synonym 'px collected = "'px image list \<times> real list list list \<times> string list"

fun label_preds ::
  "'px tensor4 \<Rightarrow> string list \<Rightarrow> nat \<Rightarrow> det list list \<Rightarrow> 'px collected
     \<Rightarrow> error + 'px collected" where
  "label_preds imgs0 path index [] acc = Inr acc"
| "label_preds imgs0 path index (pre # rest) (img, target, Path) =
     (if length pre = 0 then label_preds imgs0 path (Suc index) rest (img, target, Path)
      else
        (case tensor_getitem imgs0 index of
           Inl e \<Rightarrow> Inl e
         | Inr im \<Rightarrow>
             (case list_getitem path (int index) of
                Inl e \<Rightarrow> Inl e
              | Inr p \<Rightarrow>
                  label_preds imgs0 path (Suc index) rest
                    (img @ [im], target @ [label_records (gn_of imgs0) pre], Path @ [p]))))"

fun label_batches ::
  "('px tensor4 \<Rightarrow> det list list) \<Rightarrow> ('px tensor4 \<times> string list) list \<Rightarrow> 'px collected
     \<Rightarrow> error + 'px collected" where
  "label_batches teacher [] acc = Inr acc"
| "label_batches teacher ((imgs0, path) # batches) acc =
     (case label_preds imgs0 path 0 (teacher imgs0) acc of
        Inl e \<Rightarrow> Inl e
      | Inr acc' \<Rightarrow> label_batches teacher batches acc')"

definition pseudo_label ::
  "('px tensor4 \<Rightarrow> det list list) \<Rightarrow> ('px tensor4 \<times> string list) list
     \<Rightarrow> error + ('px image, real list list, string, unit) semiDataset" where
  "pseudo_label teacher unlabeldataloader =
     (case label_batches teacher unlabeldataloader ([], [], []) of
        Inl e \<Rightarrow> Inl e
      | Inr (img, target, Path) \<Rightarrow> Inr (semiDataset_init img target Path))"


text \<open>
  What the pass keeps of a loader whose batches carry one path and one detection set
  per image: the images with a detection, in the order of the loader, each with its
  detections and its path.
\<close>

definition kept ::
  "('px tensor4 \<Rightarrow> det list list) \<Rightarrow> 'px tensor4 \<times> string list
     \<Rightarrow> ('px image \<times> det list \<times> string) list" where
  "kept teacher batch =
     filter (\<lambda>s. fst (snd s) \<noteq> [])
       (zip (map (image_of (fst batch)) (t_data (fst batch)))
            (zip (teacher (fst batch)) (snd batch)))"

definition samples ::
  "('px tensor4 \<Rightarrow> det list list) \<Rightarrow> ('px tensor4 \<times> string list) list
     \<Rightarrow> ('px image \<times> det list \<times> string) list" where
  "samples teacher unlabeldataloader = concat (map (kept teacher) unlabeldataloader)"

text \<open>The divisors as the shape of one image gives them: width, height, width, height.\<close>

definition own_gn :: "'px image \<Rightarrow> box" where
  "own_gn im = (real (im_w im), real (im_h im), real (im_w im), real (im_h im))"

definition one_per_image ::
  "('px tensor4 \<Rightarrow> det list list) \<Rightarrow> 'px tensor4 \<times> string list \<Rightarrow> bool" where
  "one_per_image teacher batch =
     (length (teacher (fst batch)) = length (t_data (fst batch))
      \<and> length (snd batch) = length (t_data (fst batch)))"

section \<open>Properties of the container\<close>

lemma list_getitem_in_range:
  "i < length xs \<Longrightarrow> list_getitem xs (int i) = Inr (xs ! i)"
  by (simp add: list_getitem_def)

lemma list_getitem_beyond:
  "length xs \<le> i \<Longrightarrow> list_getitem xs (int i) = Inl IndexError"
  by (simp add: list_getitem_def)

lemma list_getitem_error:
  "list_getitem xs i = Inl e \<Longrightarrow> e = IndexError"
  by (simp add: list_getitem_def split: if_splits)

text \<open>
  C8. A container built from three sequences of the same length, as its constructor
  takes them, has as its length the number of images; \<^verbatim>\<open>__getitem__\<close> at a position
  \<open>i\<close> below that length returns the image, the label-record set and the path supplied
  at position \<open>i\<close> together with the size field, which is \<^verbatim>\<open>None\<close>; at a position at
  or beyond the length it raises \<^verbatim>\<open>IndexError\<close>.
\<close>

theorem semiDataset_access:
  fixes imgs :: "'i list" and target :: "'t list" and path :: "'p list"
    and ds :: "('i, 't, 'p, 's) semiDataset"
  assumes "length target = length imgs" and "length path = length imgs"
    and "ds = semiDataset_init imgs target path"
  shows "semiDataset_len ds = length imgs
       \<and> (\<forall>i < length imgs.
             semiDataset_getitem ds (int i) = Inr (imgs ! i, target ! i, path ! i, None))
       \<and> (\<forall>i \<ge> length imgs. semiDataset_getitem ds (int i) = Inl IndexError)"
  using assms
  by (simp add: semiDataset_len_def semiDataset_init_def semiDataset_getitem_def
      list_getitem_in_range list_getitem_beyond)

theorem semiDataset_access_witness:
  "semiDataset_len (semiDataset_init [10, 20 :: nat] [[1 :: real], []] [''a'', ''b'']
       :: (nat, real list, string, unit) semiDataset) = 2
   \<and> semiDataset_getitem (semiDataset_init [10, 20 :: nat] [[1 :: real], []] [''a'', ''b'']
       :: (nat, real list, string, unit) semiDataset) 1 = Inr (20, [], ''b'', None)
   \<and> semiDataset_getitem (semiDataset_init [10, 20 :: nat] [[1 :: real], []] [''a'', ''b'']
       :: (nat, real list, string, unit) semiDataset) 2 = Inl IndexError"
proof -
  have "semiDataset_len (semiDataset_init [10, 20 :: nat] [[1 :: real], []] [''a'', ''b'']
          :: (nat, real list, string, unit) semiDataset) = length [10, 20 :: nat]
      \<and> (\<forall>i < length [10, 20 :: nat].
            semiDataset_getitem (semiDataset_init [10, 20 :: nat] [[1 :: real], []] [''a'', ''b'']
              :: (nat, real list, string, unit) semiDataset) (int i)
            = Inr ([10, 20] ! i, [[1], []] ! i, [''a'', ''b''] ! i, None))
      \<and> (\<forall>i \<ge> length [10, 20 :: nat].
            semiDataset_getitem (semiDataset_init [10, 20 :: nat] [[1 :: real], []] [''a'', ''b'']
              :: (nat, real list, string, unit) semiDataset) (int i)
            = Inl IndexError)"
    by (rule semiDataset_access) simp_all
  then show ?thesis
    by (auto dest: spec [of _ 1] spec [of _ 2])
qed

text \<open>
  C9. The constructor takes any three sequences, of equal lengths or not, and raises
  nothing; the length of the container is the length of the image sequence whatever
  the other two are; and \<^verbatim>\<open>__getitem__\<close> at a position inside the image sequence but
  at or beyond the end of the label-record sequence or of the path sequence raises
  \<^verbatim>\<open>IndexError\<close>.
\<close>

theorem semiDataset_unequal_lengths:
  fixes imgs :: "'i list" and target :: "'t list" and path :: "'p list"
    and ds :: "('i, 't, 'p, 's) semiDataset"
  assumes "ds = semiDataset_init imgs target path"
  shows "semiDataset_len ds = length imgs
       \<and> (\<forall>i < length imgs. length target \<le> i \<or> length path \<le> i
             \<longrightarrow> semiDataset_getitem ds (int i) = Inl IndexError)"
  using assms
  by (auto simp add: semiDataset_len_def semiDataset_init_def semiDataset_getitem_def
      list_getitem_in_range list_getitem_beyond split: sum.splits
      dest: list_getitem_error)

theorem semiDataset_unequal_lengths_witness:
  "semiDataset_len (semiDataset_init [10, 20 :: nat] [[1 :: real]] [''a'', ''b'']
       :: (nat, real list, string, unit) semiDataset) = 2
   \<and> semiDataset_getitem (semiDataset_init [10, 20 :: nat] [[1 :: real]] [''a'', ''b'']
       :: (nat, real list, string, unit) semiDataset) 1 = Inl IndexError"
proof -
  have "semiDataset_len (semiDataset_init [10, 20 :: nat] [[1 :: real]] [''a'', ''b'']
          :: (nat, real list, string, unit) semiDataset) = length [10, 20 :: nat]
      \<and> (\<forall>i < length [10, 20 :: nat].
            length [[1 :: real]] \<le> i \<or> length [''a'', ''b''] \<le> i
            \<longrightarrow> semiDataset_getitem (semiDataset_init [10, 20 :: nat] [[1 :: real]] [''a'', ''b'']
                  :: (nat, real list, string, unit) semiDataset) (int i) = Inl IndexError)"
    by (rule semiDataset_unequal_lengths) simp
  then show ?thesis
    by (auto dest: spec [of _ 1])
qed

section \<open>Properties of the setup\<close>

text \<open>
  C4. For every dataset descriptor and every setting of the single-class option: the
  resolved class count is 1 in single-class mode and the descriptor's \<^verbatim>\<open>nc\<close>
  otherwise; the resolved names are \<^verbatim>\<open>['item']\<close> in single-class mode when the
  descriptor does not carry exactly one name, and the descriptor's names otherwise;
  and the setup raises, exactly when the number of resolved names differs from the
  resolved class count, an \<^verbatim>\<open>AssertionError\<close> whose message gives both numbers and
  the data file. Otherwise it goes on with the resolved count and names.
\<close>

theorem configure_resolves:
  "resolve_nc single_cls d = (if single_cls then 1 else dd_nc d)
   \<and> resolve_names single_cls d =
       (if single_cls \<and> length (dd_names d) \<noteq> 1 then [''item''] else dd_names d)
   \<and> isl (configure single_cls data d) =
       (int (length (resolve_names single_cls d)) \<noteq> resolve_nc single_cls d)
   \<and> configure single_cls data d =
       (if int (length (resolve_names single_cls d)) \<noteq> resolve_nc single_cls d
        then Inl (AssertionError (NamesFound (length (resolve_names single_cls d))
                                    (resolve_nc single_cls d) data))
        else Inr (resolve_nc single_cls d, resolve_names single_cls d))"
  by (simp add: configure_def resolve_nc_def resolve_names_def Let_def)

text \<open>The examples of the specification, evaluated.\<close>

lemma configure_examples:
  "configure True ''d.yaml'' \<lparr>dd_nc = 2, dd_names = [''a'', ''b'']\<rparr> = Inr (1, [''item''])"
  "configure True ''d.yaml'' \<lparr>dd_nc = 2, dd_names = [''a'']\<rparr> = Inr (1, [''a''])"
  "configure False ''d.yaml'' \<lparr>dd_nc = 3, dd_names = [''a'', ''b'']\<rparr>
     = Inl (AssertionError (NamesFound 2 3 ''d.yaml''))"
  "configure False ''d.yaml'' \<lparr>dd_nc = 3, dd_names = [''a'', ''b'', ''c'']\<rparr>
     = Inr (3, [''a'', ''b'', ''c''])"
  by (simp_all add: configure_def resolve_nc_def resolve_names_def Let_def)

section \<open>Properties of the label-class validation\<close>

lemma max_label_class_Max:
  "concat labels \<noteq> [] \<Longrightarrow>
     max_label_class labels = Inr (Max (set (map fst (concat labels))))"
proof -
  assume ne: "concat labels \<noteq> []"
  then obtain c cs where cs: "map fst (concat labels) = c # cs"
    by (cases "map fst (concat labels)") auto
  from ne have "labels \<noteq> []" by auto
  moreover have "fold max cs c = Max (set (c # cs))"
    by (rule Max.set_eq_fold [symmetric])
  ultimately show ?thesis
    by (simp add: max_label_class_def cs del: set_simps)
qed

text \<open>
  C5. On a training set with at least one label row, the validation takes the largest
  class index of all rows and raises exactly when that index is not below \<open>nc\<close>: an
  \<^verbatim>\<open>AssertionError\<close> whose message gives the index, \<open>nc\<close>, the data file and
  \<open>nc - 1\<close>, the end of the valid range. A largest index equal to \<open>nc\<close> raises; a
  largest index of \<open>nc - 1\<close> passes.
\<close>

theorem label_class_validation:
  assumes "concat labels \<noteq> []"
  shows "check_label_classes labels nc data =
           (if Max (set (map fst (concat labels))) < real_of_int nc
            then Inr (Max (set (map fst (concat labels))))
            else Inl (AssertionError
                        (LabelClassExceeds (Max (set (map fst (concat labels)))) nc data (nc - 1))))
       \<and> (Max (set (map fst (concat labels))) = real_of_int nc \<longrightarrow>
            check_label_classes labels nc data =
              Inl (AssertionError (LabelClassExceeds (real_of_int nc) nc data (nc - 1))))
       \<and> (Max (set (map fst (concat labels))) = real_of_int (nc - 1) \<longrightarrow>
            check_label_classes labels nc data = Inr (real_of_int (nc - 1)))"
  using assms by (simp add: check_label_classes_def max_label_class_Max)

theorem label_class_validation_witness:
  "check_label_classes [[(0, 0.5, 0.5, 0.1, 0.1)], [], [(2, 0.4, 0.4, 0.2, 0.2)]] 3 ''d.yaml''
     = Inr 2
   \<and> check_label_classes [[(0, 0.5, 0.5, 0.1, 0.1)], [], [(2, 0.4, 0.4, 0.2, 0.2)]] 2 ''d.yaml''
     = Inl (AssertionError (LabelClassExceeds 2 2 ''d.yaml'' 1))"
  using label_class_validation
          [of "[[(0, 0.5, 0.5, 0.1, 0.1)], [], [(2, 0.4, 0.4, 0.2, 0.2)]]" 3 "''d.yaml''"]
        label_class_validation
          [of "[[(0, 0.5, 0.5, 0.1, 0.1)], [], [(2, 0.4, 0.4, 0.2, 0.2)]]" 2 "''d.yaml''"]
  by simp

section \<open>Properties of the resume\<close>

text \<open>
  When the resume does not raise, the start epoch is the checkpoint's epoch plus one,
  and an epoch budget below the start epoch is extended by the checkpoint's epoch.
\<close>

lemma resume_epochs:
  "resume (Some ckpt) opt_resume e = Inr r \<Longrightarrow>
   start_epoch r = ck_epoch ckpt + 1
   \<and> epochs r = (if e < ck_epoch ckpt + 1 then e + ck_epoch ckpt else e)"
  by (auto simp add: resume_def Let_def split: if_splits)

lemma resume_raises_iff:
  "isl (resume (Some ckpt) opt_resume e) = (opt_resume \<and> ck_epoch ckpt + 1 \<le> 0)"
  by (auto simp add: resume_def Let_def)

text \<open>
  C6, at the input where the code departs from it. Resuming from a checkpoint whose
  recorded epoch is \<open>-1\<close>, as a finished run leaves it, gives the start epoch 0. The
  run stops, but with \<^verbatim>\<open>NameError: name 'weight' is not defined\<close>, raised while the
  message of the assertion is built, and not with the diagnostic that names the
  weights and the epoch count.
\<close>

theorem resume_name_error:
  "resume (Some \<lparr>ck_epoch = - 1, ck_has_optimizer = False, ck_best_fitness = 0\<rparr>) True 300
     = Inl (NameError ''weight'')"
  by (simp add: resume_def)

section \<open>Properties of the burn-in loop\<close>

text \<open>
  C2, where the code departs from it. \<^verbatim>\<open>epochs / 2\<close> is a float whatever the epoch
  budget, and \<^verbatim>\<open>range\<close> refuses a float: the header of the burn-in loop raises
  \<^verbatim>\<open>TypeError\<close> for every start epoch and every epoch budget, and the loop visits no
  epoch. The halving the claim describes is \<^verbatim>\<open>epochs // 2\<close>.
\<close>

theorem burnin_range_type_error:
  "burnin_epoch_indices start epochs0 = Inl TypeError"
  by (simp add: burnin_epoch_indices_def py_truediv_def)

text \<open>
  C3, where the code departs from it. The test of the warm-up window compares the
  iteration count with the list \<^verbatim>\<open>[0, nw]\<close>, which raises \<^verbatim>\<open>TypeError\<close> for every
  iteration count and warm-up budget: no learning rate and no momentum is interpolated.
\<close>

theorem warmup_type_error:
  "warmup h lf_epoch nbs total_batch_size ni nw st = Inl TypeError"
  by (simp add: warmup_def)

section \<open>Properties of the parameter groups\<close>

text \<open>
  On a model whose \<^verbatim>\<open>BatchNorm2d\<close> modules are affine the loop raises nothing, and
  the groups are the weights of the \<^verbatim>\<open>BatchNorm2d\<close> modules, the weight parameters of
  the other modules and the bias parameters, each in the order of the modules.
\<close>

lemma param_groups_loop_closed:
  "list_all affine (filter isBatchNorm2d ms) \<Longrightarrow>
   param_groups_loop ms (pg0, pg1, pg2) =
     Inr (pg0 @ norm_weights ms, pg1 @ other_weights ms, pg2 @ biases ms)"
proof (induction ms arbitrary: pg0 pg1 pg2)
  case Nil
  then show ?case by (simp add: norm_weights_def other_weights_def biases_def)
next
  case (Cons v vs)
  show ?case
  proof (cases "isBatchNorm2d v")
    case True
    with Cons.prems obtain p where w: "m_weight v = Some (ParameterV p)"
      by (auto simp add: affine_def split: option.splits attr_value.splits)
    from Cons.prems have "list_all affine (filter isBatchNorm2d vs)" by (simp split: if_splits)
    from Cons.IH [OF this] True w show ?thesis
      by (simp add: norm_weights_def other_weights_def biases_def)
  next
    case False
    from Cons.prems False have "list_all affine (filter isBatchNorm2d vs)" by simp
    from Cons.IH [OF this] False show ?thesis
      by (simp add: norm_weights_def other_weights_def biases_def)
  qed
qed

lemma groups_mset:
  "list_all affine (filter isBatchNorm2d ms) \<Longrightarrow>
   mset (norm_weights ms @ other_weights ms @ biases ms)
     = mset (map ParameterV (slot_parameters ms))"
proof (induction ms)
  case Nil
  then show ?case
    by (simp add: norm_weights_def other_weights_def biases_def slot_parameters_def)
next
  case (Cons v vs)
  show ?case
  proof (cases "isBatchNorm2d v")
    case True
    with Cons.prems obtain p where w: "m_weight v = Some (ParameterV p)"
      by (auto simp add: affine_def split: option.splits attr_value.splits)
    from Cons.prems have "list_all affine (filter isBatchNorm2d vs)" by (simp split: if_splits)
    from Cons.IH [OF this] True w show ?thesis
      by (simp add: norm_weights_def other_weights_def biases_def slot_parameters_def)
  next
    case False
    from Cons.prems False have "list_all affine (filter isBatchNorm2d vs)" by simp
    from Cons.IH [OF this] False show ?thesis
      by (simp add: norm_weights_def other_weights_def biases_def slot_parameters_def)
  qed
qed

lemma slot_subset_parameters:
  "set (slot_parameters ms) \<subseteq> set (parameters ms)"
  by (auto simp add: slot_parameters_def parameters_def module_parameters_def)

lemma slot_eq_parameters:
  "list_all (\<lambda>v. m_other v = []) ms \<Longrightarrow> set (slot_parameters ms) = set (parameters ms)"
  by (auto simp add: slot_parameters_def parameters_def module_parameters_def list_all_iff)

text \<open>
  C7, as the code has it. A module that registers a parameter under a name other than
  \<^verbatim>\<open>weight\<close> and \<^verbatim>\<open>bias\<close> keeps that parameter out of every group: here parameter 1
  is a parameter of the model and in none of the three groups.
\<close>

theorem param_groups_cover_counterexample:
  "param_groups
     [\<lparr>isBatchNorm2d = False, m_weight = Some (ParameterV 0), m_bias = None, m_other = [1]\<rparr>]
     = Inr ([], [ParameterV 0], [])
   \<and> parameters
       [\<lparr>isBatchNorm2d = False, m_weight = Some (ParameterV 0), m_bias = None, m_other = [1]\<rparr>]
     = [0, 1]
   \<and> ParameterV 1 \<notin> set ([] @ [ParameterV 0] @ [])"
  by (simp add: param_groups_def parameters_def module_parameters_def)

text \<open>
  C7, amended. For every model whose \<^verbatim>\<open>BatchNorm2d\<close> modules are affine and in
  which no parameter sits in two \<^verbatim>\<open>weight\<close> or \<^verbatim>\<open>bias\<close> attributes: group 0 is the
  weights of the \<^verbatim>\<open>BatchNorm2d\<close> modules, group 1 the weight parameters of all other
  modules, group 2 the bias parameters of all modules; no parameter is in two groups
  or twice in one; and the union of the groups is the set of the parameters that some
  module holds as its \<^verbatim>\<open>weight\<close> or \<^verbatim>\<open>bias\<close>. These are parameters of the model,
  and all of them when no module registers a parameter under another name.
\<close>

theorem param_groups_partition:
  assumes "plain_model model"
  shows "param_groups model = Inr (norm_weights model, other_weights model, biases model)
       \<and> distinct (norm_weights model @ other_weights model @ biases model)
       \<and> set (norm_weights model @ other_weights model @ biases model)
           = ParameterV ` set (slot_parameters model)
       \<and> set (slot_parameters model) \<subseteq> set (parameters model)
       \<and> (list_all (\<lambda>v. m_other v = []) model \<longrightarrow>
            set (norm_weights model @ other_weights model @ biases model)
              = ParameterV ` set (parameters model))"
proof -
  from assms have a: "list_all affine (filter isBatchNorm2d model)"
    and d: "distinct (slot_parameters model)"
    by (simp_all add: plain_model_def)
  have m: "mset (norm_weights model @ other_weights model @ biases model)
             = mset (map ParameterV (slot_parameters model))"
    by (rule groups_mset [OF a])
  have 1: "param_groups model = Inr (norm_weights model, other_weights model, biases model)"
    using param_groups_loop_closed [OF a, of "[]" "[]" "[]"] by (simp add: param_groups_def)
  have "distinct (map ParameterV (slot_parameters model))"
    using d by (simp add: distinct_map inj_on_def)
  with m have 2: "distinct (norm_weights model @ other_weights model @ biases model)"
    by (metis mset_eq_imp_distinct_iff)
  from m have 3: "set (norm_weights model @ other_weights model @ biases model)
                    = ParameterV ` set (slot_parameters model)"
    by (metis mset_eq_setD set_map)
  from 1 2 3 show ?thesis
    by (simp add: slot_subset_parameters slot_eq_parameters del: set_append)
qed

theorem param_groups_partition_witness:
  "param_groups
     [\<lparr>isBatchNorm2d = False, m_weight = Some (ParameterV 0), m_bias = Some (ParameterV 1), m_other = []\<rparr>,
      \<lparr>isBatchNorm2d = True, m_weight = Some (ParameterV 2), m_bias = Some (ParameterV 3), m_other = []\<rparr>,
      \<lparr>isBatchNorm2d = False, m_weight = Some (ParameterV 4), m_bias = None, m_other = []\<rparr>]
   = Inr ([ParameterV 2], [ParameterV 0, ParameterV 4], [ParameterV 1, ParameterV 3])"
  using param_groups_partition
    [of "[\<lparr>isBatchNorm2d = False, m_weight = Some (ParameterV 0), m_bias = Some (ParameterV 1), m_other = []\<rparr>,
      \<lparr>isBatchNorm2d = True, m_weight = Some (ParameterV 2), m_bias = Some (ParameterV 3), m_other = []\<rparr>,
      \<lparr>isBatchNorm2d = False, m_weight = Some (ParameterV 4), m_bias = None, m_other = []\<rparr>]"]
  by (simp add: plain_model_def affine_def slot_parameters_def norm_weights_def
      other_weights_def biases_def)

section \<open>Properties of the pseudo-labeling pass\<close>

lemma label_records_rows:
  "label_records (w, h, w', h') pre =
     map (\<lambda>d. [0, d_cls d, ((d_x1 d + d_x2 d) / 2) / w, ((d_y1 d + d_y2 d) / 2) / h,
                (d_x2 d - d_x1 d) / w', (d_y2 d - d_y1 d) / h']) pre"
  by (induction pre)
    (simp_all add: label_records_def torch_cat_def div_rows_def xyxy2xywh_def det_box_def Let_def)

lemma label_preds_closed:
  "index + length preds \<le> length (t_data imgs0) \<Longrightarrow>
   index + length preds \<le> length path \<Longrightarrow>
   label_preds imgs0 path index preds (img, target, Path) =
     Inr (img @ map fst
                  (filter (\<lambda>s. fst (snd s) \<noteq> [])
                     (zip (map (image_of imgs0) (drop index (t_data imgs0)))
                          (zip preds (drop index path)))),
          target @ map (\<lambda>s. label_records (gn_of imgs0) (fst (snd s)))
                  (filter (\<lambda>s. fst (snd s) \<noteq> [])
                     (zip (map (image_of imgs0) (drop index (t_data imgs0)))
                          (zip preds (drop index path)))),
          Path @ map (\<lambda>s. snd (snd s))
                  (filter (\<lambda>s. fst (snd s) \<noteq> [])
                     (zip (map (image_of imgs0) (drop index (t_data imgs0)))
                          (zip preds (drop index path)))))"
proof (induction preds arbitrary: index img target Path)
  case Nil
  then show ?case by simp
next
  case (Cons pre rest)
  from Cons.prems have i1: "index < length (t_data imgs0)" and i2: "index < length path"
    by simp_all
  have d1: "drop index (t_data imgs0) = t_data imgs0 ! index # drop (Suc index) (t_data imgs0)"
    using i1 by (simp add: Cons_nth_drop_Suc)
  have d2: "drop index path = path ! index # drop (Suc index) path"
    using i2 by (simp add: Cons_nth_drop_Suc)
  from Cons.prems have p1: "Suc index + length rest \<le> length (t_data imgs0)"
    and p2: "Suc index + length rest \<le> length path" by simp_all
  show ?case
    using i1 i2
    by (simp add: d1 d2 Cons.IH [OF p1 p2] tensor_getitem_def list_getitem_in_range)
qed

lemma kept_own_shape:
  "s \<in> set (kept teacher batch) \<Longrightarrow> gn_of (fst batch) = own_gn (fst s)"
proof -
  assume "s \<in> set (kept teacher batch)"
  then have "(fst s, snd s) \<in> set (zip (map (image_of (fst batch)) (t_data (fst batch)))
                                       (zip (teacher (fst batch)) (snd batch)))"
    by (simp add: kept_def)
  then have "fst s \<in> set (map (image_of (fst batch)) (t_data (fst batch)))"
    by (rule set_zip_leftD)
  then show ?thesis
    by (auto simp add: gn_of_def own_gn_def image_of_def)
qed

lemma label_batch_closed:
  assumes "one_per_image teacher (imgs0, path)"
  shows "label_preds imgs0 path 0 (teacher imgs0) (img, target, Path) =
     Inr (img @ map fst (kept teacher (imgs0, path)),
          target @ map (\<lambda>s. label_records (own_gn (fst s)) (fst (snd s)))
                     (kept teacher (imgs0, path)),
          Path @ map (\<lambda>s. snd (snd s)) (kept teacher (imgs0, path)))"
proof -
  have "map (\<lambda>s. label_records (gn_of imgs0) (fst (snd s))) (kept teacher (imgs0, path))
      = map (\<lambda>s. label_records (own_gn (fst s)) (fst (snd s))) (kept teacher (imgs0, path))"
    by (rule map_cong [OF refl]) (simp add: kept_own_shape [of _ teacher "(imgs0, path)", simplified, symmetric])
  with assms show ?thesis
    by (simp add: label_preds_closed one_per_image_def kept_def)
qed

lemma label_batches_closed:
  "list_all (one_per_image teacher) loader \<Longrightarrow>
   label_batches teacher loader (img, target, Path) =
     Inr (img @ map fst (samples teacher loader),
          target @ map (\<lambda>s. label_records (own_gn (fst s)) (fst (snd s)))
                     (samples teacher loader),
          Path @ map (\<lambda>s. snd (snd s)) (samples teacher loader))"
proof (induction loader arbitrary: img target Path)
  case Nil
  then show ?case by (simp add: samples_def)
next
  case (Cons b bs)
  obtain imgs0 path where b: "b = (imgs0, path)" by (cases b)
  from Cons.prems b have 1: "one_per_image teacher (imgs0, path)"
    and 2: "list_all (one_per_image teacher) bs" by simp_all
  show ?case
    using Cons.IH [OF 2]
    by (simp add: b label_batch_closed [OF 1] samples_def)
qed

lemma pseudo_label_closed:
  "list_all (one_per_image teacher) loader \<Longrightarrow>
   pseudo_label teacher loader =
     Inr (semiDataset_init (map fst (samples teacher loader))
            (map (\<lambda>s. label_records (own_gn (fst s)) (fst (snd s))) (samples teacher loader))
            (map (\<lambda>s. snd (snd s)) (samples teacher loader)))"
  by (simp add: pseudo_label_def label_batches_closed)

lemma samples_nonempty: "s \<in> set (samples teacher loader) \<Longrightarrow> fst (snd s) \<noteq> []"
  by (auto simp add: samples_def kept_def)

lemma length_kept:
  assumes "one_per_image teacher batch"
  shows "length (kept teacher batch) = length (filter (\<lambda>pre. pre \<noteq> []) (teacher (fst batch)))"
proof -
  have *: "length xs = length ys \<Longrightarrow> length ys = length zs \<Longrightarrow>
        length (filter (\<lambda>s. fst (snd s) \<noteq> []) (zip xs (zip ys zs)))
          = length (filter (\<lambda>pre. pre \<noteq> []) ys)" for xs :: "'b list" and ys :: "'c list list" and zs :: "'d list"
    by (induction xs ys zs rule: list_induct3) simp_all
  from assms show ?thesis
    by (simp add: kept_def one_per_image_def *)
qed

lemma length_samples:
  "list_all (one_per_image teacher) loader \<Longrightarrow>
   length (samples teacher loader)
     = length (filter (\<lambda>pre. pre \<noteq> []) (concat (map (\<lambda>b. teacher (fst b)) loader)))"
  by (induction loader) (simp_all add: samples_def length_kept)

lemma length_samples_le:
  "length (samples teacher loader) \<le> sum_list (map (\<lambda>b. length (t_data (fst b))) loader)"
proof (induction loader)
  case Nil
  then show ?case by (simp add: samples_def)
next
  case (Cons b bs)
  have "length (kept teacher b) \<le> length (t_data (fst b))"
    unfolding kept_def by (rule le_trans [OF length_filter_le]) simp
  with Cons show ?case by (simp add: samples_def)
qed









text \<open>What every run of the two loops that returns has appended.\<close>

lemma label_records_good:
  "pre \<noteq> [] \<Longrightarrow>
   label_records gn pre \<noteq> []
   \<and> list_all (\<lambda>r. length r = 6 \<and> r ! 0 = 0) (label_records gn pre)"
  by (cases gn) (simp add: label_records_rows list_all_iff)

lemma label_preds_inv:
  "label_preds imgs0 path index preds (img, target, Path) = Inr (img', target', Path') \<Longrightarrow>
   \<exists>ts. target' = target @ ts
      \<and> list_all (\<lambda>t. t \<noteq> [] \<and> list_all (\<lambda>r. length r = 6 \<and> r ! 0 = 0) t) ts
      \<and> length img' = length img + length ts
      \<and> length Path' = length Path + length ts
      \<and> length ts \<le> length (t_data imgs0) - index"
proof (induction preds arbitrary: index img target Path)
  case Nil
  then show ?case by simp
next
  case (Cons pre rest)
  show ?case
  proof (cases "pre = []")
    case True
    with Cons.prems have
      "label_preds imgs0 path (Suc index) rest (img, target, Path) = Inr (img', target', Path')"
      by simp
    from Cons.IH [OF this] show ?thesis by fastforce
  next
    case False
    with Cons.prems obtain im p where
      im: "tensor_getitem imgs0 index = Inr im" and
      p: "list_getitem path (int index) = Inr p" and
      rec: "label_preds imgs0 path (Suc index) rest
              (img @ [im], target @ [label_records (gn_of imgs0) pre], Path @ [p])
            = Inr (img', target', Path')"
      by (auto split: sum.splits)
    from im have lt: "index < length (t_data imgs0)"
      by (simp add: tensor_getitem_def split: if_splits)
    from Cons.IH [OF rec] obtain ts where
      ts: "target' = (target @ [label_records (gn_of imgs0) pre]) @ ts"
        "list_all (\<lambda>t. t \<noteq> [] \<and> list_all (\<lambda>r. length r = 6 \<and> r ! 0 = 0) t) ts"
        "length img' = length (img @ [im]) + length ts"
        "length Path' = length (Path @ [p]) + length ts"
        "length ts \<le> length (t_data imgs0) - Suc index"
      by blast
    have "target' = target @ (label_records (gn_of imgs0) pre # ts)"
      using ts(1) by simp
    moreover have
      "list_all (\<lambda>t. t \<noteq> [] \<and> list_all (\<lambda>r. length r = 6 \<and> r ! 0 = 0) t)
         (label_records (gn_of imgs0) pre # ts)"
      using ts(2) label_records_good [OF False, of "gn_of imgs0"] by simp
    moreover have "length img' = length img + length (label_records (gn_of imgs0) pre # ts)"
      using ts(3) by simp
    moreover have "length Path' = length Path + length (label_records (gn_of imgs0) pre # ts)"
      using ts(4) by simp
    moreover have "length (label_records (gn_of imgs0) pre # ts) \<le> length (t_data imgs0) - index"
      using ts(5) lt by simp
    ultimately show ?thesis by blast
  qed
qed

lemma label_batches_inv:
  "label_batches teacher loader (img, target, Path) = Inr (img', target', Path') \<Longrightarrow>
   \<exists>ts. target' = target @ ts
      \<and> list_all (\<lambda>t. t \<noteq> [] \<and> list_all (\<lambda>r. length r = 6 \<and> r ! 0 = 0) t) ts
      \<and> length img' = length img + length ts
      \<and> length Path' = length Path + length ts
      \<and> length ts \<le> sum_list (map (\<lambda>b. length (t_data (fst b))) loader)"
proof (induction loader arbitrary: img target Path)
  case Nil
  then show ?case by simp
next
  case (Cons b bs)
  obtain imgs0 path where b: "b = (imgs0, path)" by (cases b)
  from Cons.prems b obtain img1 target1 Path1 where
    one: "label_preds imgs0 path 0 (teacher imgs0) (img, target, Path) = Inr (img1, target1, Path1)"
    and rest: "label_batches teacher bs (img1, target1, Path1) = Inr (img', target', Path')"
    by (auto split: sum.splits)
  from label_preds_inv [OF one] obtain ts1 where
    ts1: "target1 = target @ ts1"
      "list_all (\<lambda>t. t \<noteq> [] \<and> list_all (\<lambda>r. length r = 6 \<and> r ! 0 = 0) t) ts1"
      "length img1 = length img + length ts1"
      "length Path1 = length Path + length ts1"
      "length ts1 \<le> length (t_data imgs0) - 0"
    by blast
  from Cons.IH [OF rest] obtain ts2 where
    ts2: "target' = target1 @ ts2"
      "list_all (\<lambda>t. t \<noteq> [] \<and> list_all (\<lambda>r. length r = 6 \<and> r ! 0 = 0) t) ts2"
      "length img' = length img1 + length ts2"
      "length Path' = length Path1 + length ts2"
      "length ts2 \<le> sum_list (map (\<lambda>b. length (t_data (fst b))) bs)"
    by blast
  have "target' = target @ (ts1 @ ts2)" using ts1(1) ts2(1) by simp
  moreover have
    "list_all (\<lambda>t. t \<noteq> [] \<and> list_all (\<lambda>r. length r = 6 \<and> r ! 0 = 0) t) (ts1 @ ts2)"
    using ts1(2) ts2(2) by simp
  moreover have "length img' = length img + length (ts1 @ ts2)" using ts1(3) ts2(3) by simp
  moreover have "length Path' = length Path + length (ts1 @ ts2)" using ts1(4) ts2(4) by simp
  moreover have "length (ts1 @ ts2) \<le> sum_list (map (\<lambda>b. length (t_data (fst b))) (b # bs))"
    using ts1(5) ts2(5) b by simp
  ultimately show ?case by blast
qed

text \<open>
  C10. Whenever the pass returns a container, every label-record set in it has at
  least one row and every row has 6 entries, the first of them 0; the three sequences
  have the same length, and that length is at most the number of images of the loader.
  On a loader whose batches carry one path and one detection set per image the pass
  does return a container, and its length is the number of non-empty detection sets:
  an image without a detection adds nothing to any of the three sequences.
\<close>

theorem pseudo_label_container:
  "(pseudo_label teacher loader = Inr ds \<longrightarrow>
      list_all (\<lambda>t. t \<noteq> [] \<and> list_all (\<lambda>r. length r = 6 \<and> r ! 0 = 0) t) (sd_target ds)
      \<and> length (sd_target ds) = length (sd_imgs ds)
      \<and> length (sd_path ds) = length (sd_imgs ds)
      \<and> semiDataset_len ds \<le> sum_list (map (\<lambda>b. length (t_data (fst b))) loader))
   \<and> (list_all (one_per_image teacher) loader \<longrightarrow>
        (\<exists>ds'. pseudo_label teacher loader = Inr ds'
           \<and> semiDataset_len ds'
               = length (filter (\<lambda>pre. pre \<noteq> [])
                           (concat (map (\<lambda>b. teacher (fst b)) loader)))))"
proof (intro conjI impI)
  assume r: "pseudo_label teacher loader = Inr ds"
  then obtain img target Path where
    l: "label_batches teacher loader ([], [], []) = Inr (img, target, Path)"
    and ds: "ds = semiDataset_init img target Path"
    by (auto simp add: pseudo_label_def split: sum.splits)
  from label_batches_inv [OF l] obtain ts where
    ts: "target = [] @ ts"
      "list_all (\<lambda>t. t \<noteq> [] \<and> list_all (\<lambda>r. length r = 6 \<and> r ! 0 = 0) t) ts"
      "length img = length ([] :: 'a image list) + length ts"
      "length Path = length ([] :: string list) + length ts"
      "length ts \<le> sum_list (map (\<lambda>b. length (t_data (fst b))) loader)"
    by blast
  from ts ds show
    "list_all (\<lambda>t. t \<noteq> [] \<and> list_all (\<lambda>r. length r = 6 \<and> r ! 0 = 0) t) (sd_target ds)"
    by (simp add: semiDataset_init_def)
  from ts ds show "length (sd_target ds) = length (sd_imgs ds)"
    by (simp add: semiDataset_init_def)
  from ts ds show "length (sd_path ds) = length (sd_imgs ds)"
    by (simp add: semiDataset_init_def)
  from ts ds show "semiDataset_len ds \<le> sum_list (map (\<lambda>b. length (t_data (fst b))) loader)"
    by (simp add: semiDataset_init_def semiDataset_len_def)
next
  assume wf: "list_all (one_per_image teacher) loader"
  show "\<exists>ds'. pseudo_label teacher loader = Inr ds'
           \<and> semiDataset_len ds'
               = length (filter (\<lambda>pre. pre \<noteq> [])
                           (concat (map (\<lambda>b. teacher (fst b)) loader)))"
    by (simp add: pseudo_label_closed [OF wf] semiDataset_len_def semiDataset_init_def
        length_samples [OF wf])
qed

theorem pseudo_label_container_witness:
  "pseudo_label
     (\<lambda>b. [[], [\<lparr>d_x1 = 10, d_y1 = 20, d_x2 = 30, d_y2 = 60, d_conf = 0.5, d_cls = 0\<rparr>], []])
     [(\<lparr>t_chan = 3, t_h = 80, t_w = 40, t_data = [1 :: nat, 2, 3]\<rparr>, [''p'', ''q'', ''r''])]
   = Inr \<lparr>sd_imgs = [\<lparr>im_chan = 3, im_h = 80, im_w = 40, im_data = 2\<rparr>],
          sd_target = [[[0, 0, 20 / 40, 40 / 80, 20 / 40, 40 / 80]]],
          sd_path = [''q''],
          sd_size = None\<rparr>
   \<and> list_all (one_per_image
        (\<lambda>b. [[], [\<lparr>d_x1 = 10, d_y1 = 20, d_x2 = 30, d_y2 = 60, d_conf = 0.5, d_cls = 0\<rparr>], []]))
       [(\<lparr>t_chan = 3, t_h = 80, t_w = 40, t_data = [1 :: nat, 2, 3]\<rparr>, [''p'', ''q'', ''r''])]
   \<and> semiDataset_len
        \<lparr>sd_imgs = [\<lparr>im_chan = 3, im_h = 80, im_w = 40, im_data = 2 :: nat\<rparr>],
          sd_target = [[[0, 0, 20 / 40, 40 / 80, 20 / 40, 40 / 80 :: real]]],
          sd_path = [''q''],
          sd_size = None :: unit option\<rparr> = 1"
  using pseudo_label_container
    [of "\<lambda>b. [[], [\<lparr>d_x1 = 10, d_y1 = 20, d_x2 = 30, d_y2 = 60, d_conf = 0.5, d_cls = 0\<rparr>], []]"
        "[(\<lparr>t_chan = 3, t_h = 80, t_w = 40, t_data = [1 :: nat, 2, 3]\<rparr>, [''p'', ''q'', ''r''])]"
        "\<lparr>sd_imgs = [\<lparr>im_chan = 3, im_h = 80, im_w = 40, im_data = 2 :: nat\<rparr>],
          sd_target = [[[0, 0, 20 / 40, 40 / 80, 20 / 40, 40 / 80 :: real]]],
          sd_path = [''q''],
          sd_size = None :: unit option\<rparr>"]
  by (simp add: one_per_image_def pseudo_label_def tensor_getitem_def image_of_def
      list_getitem_def gn_of_def label_records_def torch_cat_def div_rows_def xyxy2xywh_def
      det_box_def semiDataset_init_def semiDataset_len_def)

end
